theory Spec2Isabelle
  imports Complex_Main
begin

section \<open>JavaScript values used by the client\<close>

text \<open>
  Strings are modelled as \<^typ>\<open>string\<close>, a \<^typ>\<open>char\<close> standing for a code unit below 256
  (ASCII and the Latin-1 supplement). The string methods the client calls are
  \<open>startsWith\<close>, \<open>includes\<close>, \<open>toLowerCase\<close> and \<open>trim\<close>. In this range \<open>toLowerCase\<close>
  changes the letters A to Z and the capital letters from 0xC0 to 0xDE (0xD7, the
  multiplication sign, is not one).
\<close>

definition startsWith :: "string \<Rightarrow> string \<Rightarrow> bool" where
  "startsWith s p = (take (length p) s = p)"

fun includes_str :: "string \<Rightarrow> string \<Rightarrow> bool" where
  "includes_str [] p = (p = [])"
| "includes_str (c # cs) p = (startsWith (c # cs) p \<or> includes_str cs p)"

definition lowerChar :: "char \<Rightarrow> char" where
  "lowerChar c =
     (let n = (of_char c :: nat)
      in if (65 \<le> n \<and> n \<le> 90) \<or> (192 \<le> n \<and> n \<le> 222 \<and> n \<noteq> 215)
         then char_of (n + 32) else c)"

definition toLowerCase :: "string \<Rightarrow> string" where
  "toLowerCase s = map lowerChar s"

text \<open>\<open>a || b\<close> on an optional string: \<open>undefined\<close> and the empty string are falsy.\<close>

definition str_or :: "string option \<Rightarrow> string \<Rightarrow> string" where
  "str_or a b = (case a of None \<Rightarrow> b | Some s \<Rightarrow> if s = [] then b else s)"

text \<open>Decimal rendering of a number inside a template literal.\<close>

definition digit :: "nat \<Rightarrow> char" where
  "digit d = char_of (48 + d)"

fun string_of_nat :: "nat \<Rightarrow> string" where
  "string_of_nat n = (if n < 10 then [digit n] else string_of_nat (n div 10) @ [digit (n mod 10)])"

declare string_of_nat.simps [simp del]

text \<open>A thrown \<open>new Error(message)\<close>.\<close>

datatype js_error = Error string

fun message :: "js_error \<Rightarrow> string" where
  "message (Error m) = m"

text \<open>
  Numbers. Pixel sizes, frame counts and frame indices are integers; the two places where
  the client's arithmetic leaves the integers are division by zero (\<open>Infinity\<close>, or \<open>NaN\<close>
  for \<open>0 / 0\<close>) and the remainder by zero (\<open>NaN\<close>), so a number is an integer or one of
  these two. \<open>Math.floor(a / b)\<close> on integers is the floor of the exact quotient, which is
  \<open>div\<close> on \<^typ>\<open>int\<close>; \<open>a % b\<close> takes the sign of the dividend.
\<close>

datatype jsnum = Fin int | Infinity | NaN

definition js_floor_div :: "nat \<Rightarrow> int \<Rightarrow> jsnum" where
  "js_floor_div a b =
     (if b = 0 then (if a = 0 then NaN else Infinity) else Fin (int a div b))"

text \<open>\<open>a || b\<close> on an optional size: \<open>undefined\<close> and \<open>0\<close> are falsy.\<close>

definition num_or :: "nat option \<Rightarrow> jsnum \<Rightarrow> jsnum" where
  "num_or a b = (case a of None \<Rightarrow> b | Some n \<Rightarrow> if n = 0 then b else Fin (int n))"

fun js_times :: "nat \<Rightarrow> jsnum \<Rightarrow> jsnum" where
  "js_times i (Fin x) = Fin (int i * x)"
| "js_times i Infinity = (if i = 0 then NaN else Infinity)"
| "js_times i NaN = NaN"

fun js_plus :: "jsnum \<Rightarrow> int \<Rightarrow> jsnum" where
  "js_plus (Fin a) k = Fin (a + k)"
| "js_plus Infinity k = Infinity"
| "js_plus NaN k = NaN"

fun js_rem :: "jsnum \<Rightarrow> int \<Rightarrow> jsnum" where
  "js_rem (Fin a) b = (if b = 0 then NaN else Fin (sgn a * (\<bar>a\<bar> mod \<bar>b\<bar>)))"
| "js_rem Infinity b = NaN"
| "js_rem NaN b = NaN"

section \<open>services/api: configuration and HTTP plumbing\<close>

text \<open>
  \<open>const SPRITE_API_BASE = import.meta.env.VITE_SPRITE_API_URL || 'http://localhost:5000'\<close>
  and likewise for the 3D backend. The environment value is a parameter.
\<close>

definition SPRITE_API_BASE :: "string option \<Rightarrow> string" where
  "SPRITE_API_BASE env = str_or env ''http://localhost:5000''"

definition MODEL_3D_API_BASE :: "string option \<Rightarrow> string" where
  "MODEL_3D_API_BASE env = str_or env ''http://localhost:8000''"

text \<open>
  A \<open>fetch\<close> either rejects (transport failure) or yields a response with a status code
  and a body; \<open>json_body\<close> is what \<open>response.json()\<close> settles to.
\<close>

record 'a response =
  http_status :: nat
  json_body :: "js_error + 'a"

datatype 'a fetch_outcome = FetchRejected js_error | Responded "'a response"

definition ok :: "'a response \<Rightarrow> bool" where
  "ok r = (200 \<le> http_status r \<and> http_status r \<le> 299)"

subsection \<open>getOutputUrl\<close>

definition getOutputUrl :: "string \<Rightarrow> string \<Rightarrow> string" where
  "getOutputUrl base path =
     (if startsWith path ''http'' then path
      else base @ (if startsWith path ''/'' then [] else ''/'') @ path)"

text \<open>
  The reading of "the base URL followed by exactly one slash and the path" that is compared
  with the code: the result is the base, one slash, and the path less its own leading
  slash, and no further slash follows that one.
\<close>

definition strip_slash :: "string \<Rightarrow> string" where
  "strip_slash path = (if startsWith path ''/'' then tl path else path)"

definition spec_one_slash_join :: "string \<Rightarrow> string \<Rightarrow> string \<Rightarrow> bool" where
  "spec_one_slash_join base path r =
     (r = base @ ''/'' @ strip_slash path \<and> \<not> startsWith (strip_slash path) ''/'')"

subsection \<open>generateSprite\<close>

text \<open>
  The body of a sprite-backend reply: an error object \<open>{error?: string}\<close> or the generation
  result. \<open>error.error\<close> of a body without that field is \<open>undefined\<close>.
\<close>

datatype 'r sprite_json = ErrorBody "string option" | Payload 'r

fun error_field :: "'r sprite_json \<Rightarrow> string option" where
  "error_field (ErrorBody e) = e"
| "error_field (Payload _) = None"

definition generateSprite :: "'r sprite_json fetch_outcome \<Rightarrow> js_error + 'r sprite_json" where
  "generateSprite f =
     (case f of
        FetchRejected e \<Rightarrow> Inl e
      | Responded response \<Rightarrow>
          if \<not> ok response then
            (let error = (case json_body response of
                            Inl _ \<Rightarrow> ErrorBody (Some ''Unknown error'')
                          | Inr j \<Rightarrow> j)
             in Inl (Error (str_or (error_field error)
                              (''API error: '' @ string_of_nat (http_status response)))))
          else json_body response)"

section \<open>pages/Generator: error classification in handleGenerate\<close>

datatype error_type = moderation | network | general

datatype generation_status = idle | generating | completed | failed

record generator_ui =
  errorMessage :: "string option"
  errorType :: error_type
  progressMessage :: string
  isGenerating :: bool
  generationStatus :: generation_status

text \<open>The \<open>catch (e)\<close> block of \<open>handleGenerate\<close>.\<close>

definition handleGenerate_catch :: "js_error \<Rightarrow> generator_ui \<Rightarrow> generator_ui" where
  "handleGenerate_catch e ui =
     (let errorMsg = message e;
          ui1 =
            (if includes_str (toLowerCase errorMsg) ''moderation''
                \<or> includes_str (toLowerCase errorMsg) ''content''
             then ui\<lparr>errorType := moderation,
                     errorMessage := Some ''Your prompt was flagged by content moderation. Please try a different description without potentially offensive or inappropriate content.''\<rparr>
             else if includes_str (toLowerCase errorMsg) ''network''
                \<or> includes_str (toLowerCase errorMsg) ''fetch''
                \<or> includes_str (toLowerCase errorMsg) ''timeout''
             then ui\<lparr>errorType := network,
                     errorMessage := Some ''Network error. Please check your connection and ensure the backend server is running.''\<rparr>
             else ui\<lparr>errorType := general, errorMessage := Some errorMsg\<rparr>)
      in ui1\<lparr>progressMessage := [], isGenerating := False, generationStatus := failed\<rparr>)"

text \<open>
  \<open>prompt.trim()\<close> is empty exactly when every character is white space or a line
  terminator. Below 256 these are the space, tab, line feed, vertical tab, form feed,
  carriage return and the no-break space 0xA0; the others that \<open>trim\<close> removes (0xFEFF,
  0x2028, 0x2029 and the remaining space separators) lie beyond the range of a
  \<^typ>\<open>char\<close>.
\<close>

definition is_space :: "char \<Rightarrow> bool" where
  "is_space c =
     (c \<in> set [CHR '' '', CHR 0x09, CHR 0x0A, CHR 0x0B, CHR 0x0C, CHR 0x0D, CHR 0xA0])"

definition blank :: "string \<Rightarrow> bool" where
  "blank s = list_all is_space s"

text \<open>
  \<open>handleGenerate\<close>, with the awaited API call of the selected mode passed in as its
  outcome: a rejection reaches the \<open>catch\<close> block, a result completes the generation.
\<close>

definition handleGenerate :: "string \<Rightarrow> (js_error + 'r) \<Rightarrow> generator_ui \<Rightarrow> generator_ui" where
  "handleGenerate prompt outcome ui =
     (if blank prompt then ui\<lparr>errorMessage := Some ''Please enter a prompt''\<rparr>
      else
        (let ui1 = ui\<lparr>errorMessage := None, isGenerating := True, generationStatus := generating\<rparr>
         in case outcome of
              Inl e \<Rightarrow> handleGenerate_catch e ui1
            | Inr _ \<Rightarrow> ui1\<lparr>isGenerating := False, generationStatus := completed\<rparr>))"

text \<open>
  Step indicators, the stored result and the progress text of the success path are left
  out: they do not influence the error state.
\<close>

section \<open>services/api: the 3D pipeline and its polling loop\<close>

record pipeline_job =
  job_id :: string
  message_text :: string

record job_status =
  status :: string
  image_url :: "string option"
  model_url :: "string option"
  error :: "string option"

record generated3d =
  imageUrl :: string
  modelUrl :: string

text \<open>
  \<open>start3DPipeline\<close> and \<open>get3DJobStatus\<close> do not read the body of a reply that is not ok,
  whatever it holds; the body of an ok reply is returned as it parses.
\<close>

definition start3DPipeline :: "'a fetch_outcome \<Rightarrow> js_error + 'a" where
  "start3DPipeline f =
     (case f of
        FetchRejected e \<Rightarrow> Inl e
      | Responded response \<Rightarrow>
          if \<not> ok response
          then Inl (Error (''Failed to start 3D pipeline: '' @ string_of_nat (http_status response)))
          else json_body response)"

definition get3DJobStatus :: "job_status fetch_outcome \<Rightarrow> js_error + job_status" where
  "get3DJobStatus f =
     (case f of
        FetchRejected e \<Rightarrow> Inl e
      | Responded response \<Rightarrow>
          if \<not> ok response
          then Inl (Error (''Failed to get job status: '' @ string_of_nat (http_status response)))
          else json_body response)"

text \<open>
  What \<open>generate3D\<close> does to the outside world, in order: \<open>onProgress?.(text)\<close>, the start
  request, \<open>await wait(ms)\<close> and a status request for a job. The 3D backend is a parameter:
  its reply to the start request and to the i-th status request (counted from 0).
\<close>

datatype event = Progress string | StartRequest string | Wait nat | StatusRequest string

record backend3d =
  start_reply :: "pipeline_job fetch_outcome"
  status_reply :: "nat \<Rightarrow> job_status fetch_outcome"

definition maxAttempts :: nat where
  "maxAttempts = 120"

function poll_loop ::
  "string \<Rightarrow> (nat \<Rightarrow> job_status fetch_outcome) \<Rightarrow> string \<Rightarrow> nat \<Rightarrow> event list
     \<Rightarrow> event list \<times> (js_error + generated3d)" where
  "poll_loop base replies job i tr =
     (if i < maxAttempts then
        (let tr1 = tr @ [Wait 5000, StatusRequest job] in
         case get3DJobStatus (replies i) of
           Inl e \<Rightarrow> (tr1, Inl e)
         | Inr st \<Rightarrow>
             if status st = ''pending'' then
               poll_loop base replies job (i + 1) (tr1 @ [Progress ''Waiting to start...''])
             else if status st = ''generating_image'' then
               poll_loop base replies job (i + 1)
                 (tr1 @ [Progress ''Generating reference image with FIBO...''])
             else if status st = ''generating_3d'' then
               poll_loop base replies job (i + 1)
                 (tr1 @ [Progress ''Converting to 3D model with TRIPO...''])
             else if status st = ''completed'' then
               (let m = str_or (model_url st) [];
                    m' = (if startsWith m ''/'' then base @ m else m)
                in (tr1 @ [Progress ''Complete!''],
                    Inr \<lparr>imageUrl = str_or (image_url st) [], modelUrl = m'\<rparr>))
             else if status st = ''failed'' then
               (tr1, Inl (Error (str_or (error st) ''Pipeline failed'')))
             else poll_loop base replies job (i + 1) tr1)
      else (tr, Inl (Error ''Pipeline timed out'')))"
  by pat_completeness auto
termination
  by (relation "measure (\<lambda>(base, replies, job, i, tr). maxAttempts - i)") auto

declare poll_loop.simps [simp del]

definition initial_trace :: "string \<Rightarrow> string \<Rightarrow> event list" where
  "initial_trace prompt job =
     [Progress ''Starting 3D generation pipeline...'', StartRequest prompt,
      Progress (''Pipeline started (Job: '' @ take 8 job @ ''...)'')]"

definition generate3D ::
  "string \<Rightarrow> string \<Rightarrow> backend3d \<Rightarrow> event list \<times> (js_error + generated3d)" where
  "generate3D base prompt backend =
     (case start3DPipeline (start_reply backend) of
        Inl e \<Rightarrow> ([Progress ''Starting 3D generation pipeline...'', StartRequest prompt], Inl e)
      | Inr started \<Rightarrow>
          poll_loop base (status_reply backend) (job_id started) 0
            (initial_trace prompt (job_id started)))"

text \<open>
  Two observations of a trace: the number of status requests, and the trace without its
  progress notifications (the requests and the waits between them, in order).
\<close>

fun is_status_request :: "event \<Rightarrow> bool" where
  "is_status_request (StatusRequest _) = True"
| "is_status_request _ = False"

definition polls :: "event list \<Rightarrow> nat" where
  "polls tr = length (filter is_status_request tr)"

fun is_progress :: "event \<Rightarrow> bool" where
  "is_progress (Progress _) = True"
| "is_progress _ = False"

definition schedule :: "event list \<Rightarrow> event list" where
  "schedule tr = filter (\<lambda>e. \<not> is_progress e) tr"

text \<open>A reply that leaves the loop running: a status other than the two terminal ones.\<close>

definition non_terminal :: "job_status fetch_outcome \<Rightarrow> bool" where
  "non_terminal f =
     (case get3DJobStatus f of
        Inl _ \<Rightarrow> False
      | Inr st \<Rightarrow> status st \<noteq> ''completed'' \<and> status st \<noteq> ''failed'')"

section \<open>components/sprite/SpriteAnimator\<close>

text \<open>
  The props the claims depend on, after the defaults (\<open>frameCount = 6\<close>, \<open>speed = 100\<close>)
  have been filled in. \<open>frameCount\<close> is an integer, whatever its sign; the optional frame
  sizes are pixel counts; \<open>speed\<close> is the interval in milliseconds.
\<close>

record animator_props =
  sheetUrl :: string
  frameCount :: int
  frameWidth :: "nat option"
  frameHeight :: "nat option"
  speed :: real

text \<open>
  A frame is held by the component as the data URL of the canvas after one \<open>drawImage\<close>
  call; it is represented by the source rectangle of that call (x, y, width, height).
\<close>

record crop =
  sx :: jsnum
  sy :: int
  sw :: jsnum
  sh :: jsnum

text \<open>The outcome of loading the image: \<open>onload\<close> with its pixel size, or \<open>onerror\<close>.\<close>

datatype image_load = Loaded nat nat | LoadFailed

datatype view_mode = preview | sheet

text \<open>
  The component's state. \<open>requested\<close> lists the image requests issued (\<open>img.src = sheetUrl\<close>).
  The source computes the playing flag as
  \<open>externalIsPlaying !== undefined ? externalIsPlaying : internalIsPlaying\<close> and its setter
  as \<open>onPlayingChange || setInternalIsPlaying\<close>. The two props are optional one by one.
  The Generator page, the only caller, binds both to one state variable of its own:
  \<open>parentIsPlaying\<close> is that variable, \<open>hasExternalIsPlaying\<close> and \<open>hasOnPlayingChange\<close> say
  which of the two props the parent passes. Timestamps are taken as exact real numbers of
  milliseconds.
\<close>

record animator =
  requested :: "string list"
  sheetDimensions :: "(nat \<times> nat) option"
  frames :: "crop list"
  imgError :: bool
  hasExternalIsPlaying :: bool
  hasOnPlayingChange :: bool
  parentIsPlaying :: bool
  internalIsPlaying :: bool
  viewMode :: view_mode
  currentFrame :: jsnum
  lastFrameTime :: real

subsection \<open>Frame extraction\<close>

text \<open>The \<open>for (let i = 0; i < frameCount; i++)\<close> loop of \<open>img.onload\<close>.\<close>

function extract_loop :: "int \<Rightarrow> jsnum \<Rightarrow> jsnum \<Rightarrow> nat \<Rightarrow> crop list \<Rightarrow> crop list" where
  "extract_loop n w h i extractedFrames =
     (if int i < n
      then extract_loop n w h (i + 1)
             (extractedFrames @ [\<lparr>sx = js_times i w, sy = 0, sw = w, sh = h\<rparr>])
      else extractedFrames)"
  by pat_completeness auto
termination
  by (relation "measure (\<lambda>(n, w, h, i, fs). nat (n - int i))") auto

declare extract_loop.simps [simp del]

text \<open>\<open>ctx\<close> tells whether \<open>canvas.getContext('2d')\<close> returned a context.\<close>

definition onload :: "animator_props \<Rightarrow> nat \<Rightarrow> nat \<Rightarrow> bool \<Rightarrow> animator \<Rightarrow> animator" where
  "onload p width height ctx st =
     (let st1 = st\<lparr>sheetDimensions := Some (width, height)\<rparr>;
          calculatedFrameWidth = num_or (frameWidth p) (js_floor_div width (frameCount p));
          calculatedFrameHeight = num_or (frameHeight p) (Fin (int height))
      in if ctx
         then st1\<lparr>frames :=
                extract_loop (frameCount p) calculatedFrameWidth calculatedFrameHeight 0 []\<rparr>
         else st1)"

text \<open>
  The frame-extraction effect, run to the end of the image load. \<open>decode\<close> is the outside
  world: what loading a URL yields.
\<close>

definition loadSheet ::
  "animator_props \<Rightarrow> (string \<Rightarrow> image_load) \<Rightarrow> bool \<Rightarrow> animator \<Rightarrow> animator" where
  "loadSheet p decode ctx st =
     (if sheetUrl p = [] then st
      else
        (let st1 = st\<lparr>requested := requested st @ [sheetUrl p]\<rparr>
         in case decode (sheetUrl p) of
              LoadFailed \<Rightarrow> st1\<lparr>imgError := True\<rparr>
            | Loaded width height \<Rightarrow> onload p width height ctx st1))"

subsection \<open>Playback\<close>

definition isPlaying :: "animator \<Rightarrow> bool" where
  "isPlaying s = (if hasExternalIsPlaying s then parentIsPlaying s else internalIsPlaying s)"

definition setIsPlaying :: "bool \<Rightarrow> animator \<Rightarrow> animator" where
  "setIsPlaying v s =
     (if hasOnPlayingChange s then s\<lparr>parentIsPlaying := v\<rparr>
      else s\<lparr>internalIsPlaying := v\<rparr>)"

definition nextFrame :: "animator_props \<Rightarrow> animator \<Rightarrow> animator" where
  "nextFrame p s =
     (setIsPlaying False s)\<lparr>currentFrame := js_rem (js_plus (currentFrame s) 1) (frameCount p)\<rparr>"

definition prevFrame :: "animator_props \<Rightarrow> animator \<Rightarrow> animator" where
  "prevFrame p s =
     (setIsPlaying False s)\<lparr>currentFrame :=
        js_rem (js_plus (js_plus (currentFrame s) (- 1)) (frameCount p)) (frameCount p)\<rparr>"

definition handleFrameClick :: "nat \<Rightarrow> animator \<Rightarrow> animator" where
  "handleFrameClick index s =
     (setIsPlaying False s)\<lparr>viewMode := preview, currentFrame := Fin (int index)\<rparr>"

text \<open>The frame slider's \<open>onChange\<close>: \<open>setCurrentFrame(Number(e.target.value))\<close>.\<close>

definition scrub :: "int \<Rightarrow> animator \<Rightarrow> animator" where
  "scrub v s = s\<lparr>currentFrame := Fin v\<rparr>"

text \<open>The play/pause button's \<open>onClick\<close>: \<open>setIsPlaying(!isPlaying)\<close>.\<close>

definition togglePlay :: "animator \<Rightarrow> animator" where
  "togglePlay s = setIsPlaying (\<not> isPlaying s) s"

text \<open>
  What the user can do, and when. A control that is not rendered, or is disabled, cannot
  fire (\<open>None\<close>): the play/pause button and the previous/next buttons are rendered in the
  animation view only, the latter two with \<open>disabled={isPlaying}\<close>; there is one timeline
  button per extracted frame; the frame slider is rendered in the animation view while
  paused, and as a range input from 0 to \<open>frameCount - 1\<close> in steps of 1 it yields an
  integer of that range (its minimum when the range is empty).
\<close>

datatype ui_event =
  ClickNext | ClickPrev | ClickFrame nat | ScrubTo int | ClickPlayPause
  | ClickSheetTab | ClickAnimationTab

fun ui_step :: "animator_props \<Rightarrow> ui_event \<Rightarrow> animator \<Rightarrow> animator option" where
  "ui_step p ClickNext s =
     (if viewMode s = preview \<and> \<not> isPlaying s then Some (nextFrame p s) else None)"
| "ui_step p ClickPrev s =
     (if viewMode s = preview \<and> \<not> isPlaying s then Some (prevFrame p s) else None)"
| "ui_step p (ClickFrame i) s =
     (if i < length (frames s) then Some (handleFrameClick i s) else None)"
| "ui_step p (ScrubTo v) s =
     (if viewMode s = preview \<and> \<not> isPlaying s \<and> 0 \<le> v \<and> v \<le> max 0 (frameCount p - 1)
      then Some (scrub v s) else None)"
| "ui_step p ClickPlayPause s =
     (if viewMode s = preview then Some (togglePlay s) else None)"
| "ui_step p ClickSheetTab s = Some ((setIsPlaying False s)\<lparr>viewMode := sheet\<rparr>)"
| "ui_step p ClickAnimationTab s = Some (s\<lparr>viewMode := preview\<rparr>)"


text \<open>
  The animation loop. \<open>animate\<close> is the \<open>requestAnimationFrame\<close> callback; the effect
  schedules it only while its guard fails to return early, and cancels the pending
  callback otherwise. \<open>advance\<close> is one display frame at \<open>timestamp\<close>.
\<close>

definition animate :: "animator_props \<Rightarrow> real \<Rightarrow> animator \<Rightarrow> animator" where
  "animate p timestamp s =
     (if timestamp - lastFrameTime s \<ge> speed p
      then s\<lparr>currentFrame := js_rem (js_plus (currentFrame s) 1) (frameCount p),
             lastFrameTime := timestamp\<rparr>
      else s)"

definition loop_running :: "animator \<Rightarrow> bool" where
  "loop_running s =
     (\<not> (\<not> isPlaying s \<or> viewMode s \<noteq> preview \<or> length (frames s) = 0))"

definition advance :: "animator_props \<Rightarrow> real \<Rightarrow> animator \<Rightarrow> animator" where
  "advance p timestamp s = (if loop_running s then animate p timestamp s else s)"

subsection \<open>The states the component goes through\<close>

text \<open>
  The component right after mounting: the initial values of its \<open>useState\<close> and \<open>useRef\<close>
  calls. The component has two call sites, the two versions of the Generator page: one
  passes both \<open>externalIsPlaying\<close> and \<open>onPlayingChange\<close>, bound to its own \<open>isPlaying\<close> state
  (which outlives the component, so its value at mount is open), the other passes neither.
\<close>

definition mounted :: "animator \<Rightarrow> bool" where
  "mounted s =
     (requested s = [] \<and> sheetDimensions s = None \<and> frames s = [] \<and> \<not> imgError s
      \<and> hasExternalIsPlaying s = hasOnPlayingChange s
      \<and> internalIsPlaying s \<and> viewMode s = preview
      \<and> currentFrame s = Fin 0 \<and> lastFrameTime s = 0)"

text \<open>
  From there the state changes by the frame-extraction effect, by display frames and by
  what the user does. Both call sites give the component \<open>key={selectedAnimation}\<close> and
  render it only while a generation result is present, which \<open>handleGenerate\<close> clears
  before it requests a new one: the sheet URL, the frame count and the frame size of a
  mounted component never change. The speed does, through the speed slider.
\<close>

inductive reachable :: "animator_props \<Rightarrow> animator \<Rightarrow> bool" where
  mount: "mounted s \<Longrightarrow> reachable p s"
| load: "reachable p s \<Longrightarrow> reachable p (loadSheet p decode ctx s)"
| display_frame: "reachable p s \<Longrightarrow> reachable p (advance p timestamp s)"
| user: "reachable p s \<Longrightarrow> ui_step p e s = Some s' \<Longrightarrow> reachable p s'"
| speed_change: "reachable p s \<Longrightarrow> reachable (p\<lparr>speed := v\<rparr>) s"

code_pred reachable .



section \<open>Sample inputs\<close>

definition started_job :: pipeline_job where
  "started_job = \<lparr>job_id = ''0123456789abcdef'', message_text = ''started''\<rparr>"

definition pending_status :: job_status where
  "pending_status = \<lparr>status = ''pending'', image_url = None, model_url = None, error = None\<rparr>"

definition completed_status :: job_status where
  "completed_status =
     \<lparr>status = ''completed'', image_url = Some ''https://cdn.example/robot.png'',
      model_url = Some ''/models/robot.glb'', error = None\<rparr>"

text \<open>A backend that answers every status request with \<open>pending\<close>.\<close>

definition pending_backend :: backend3d where
  "pending_backend =
     \<lparr>start_reply = Responded \<lparr>http_status = 200, json_body = Inr started_job\<rparr>,
      status_reply = (\<lambda>i. Responded \<lparr>http_status = 200, json_body = Inr pending_status\<rparr>)\<rparr>"

text \<open>A backend whose job is complete at the first status request.\<close>

definition done_backend :: backend3d where
  "done_backend =
     \<lparr>start_reply = Responded \<lparr>http_status = 200, json_body = Inr started_job\<rparr>,
      status_reply = (\<lambda>i. Responded \<lparr>http_status = 200, json_body = Inr completed_status\<rparr>)\<rparr>"

text \<open>
  A backend whose first status request fails in transport and whose job is complete from
  the second request on.
\<close>

definition flaky_backend :: backend3d where
  "flaky_backend =
     \<lparr>start_reply = Responded \<lparr>http_status = 200, json_body = Inr started_job\<rparr>,
      status_reply = (\<lambda>i. if i = 0 then FetchRejected (Error ''Failed to fetch'')
                          else Responded \<lparr>http_status = 200, json_body = Inr completed_status\<rparr>)\<rparr>"

text \<open>A backend that answers \<open>pending\<close> twice and then replies 503 with a body that is not JSON.\<close>

definition failing_backend :: backend3d where
  "failing_backend =
     \<lparr>start_reply = Responded \<lparr>http_status = 200, json_body = Inr started_job\<rparr>,
      status_reply = (\<lambda>i. if i < 2
                          then Responded \<lparr>http_status = 200, json_body = Inr pending_status\<rparr>
                          else Responded \<lparr>http_status = 503,
                                 json_body = Inl (Error ''Unexpected token <'')\<rparr>)\<rparr>"

definition fresh_ui :: generator_ui where
  "fresh_ui = \<lparr>errorMessage = None, errorType = general, progressMessage = [],
               isGenerating = False, generationStatus = idle\<rparr>"

text \<open>The moderation reply: HTTP 400 with body \<open>{"error": "content moderation flagged"}\<close>.\<close>

definition flagged_response :: "unit sprite_json response" where
  "flagged_response =
     \<lparr>http_status = 400, json_body = Inr (ErrorBody (Some ''content moderation flagged''))\<rparr>"

definition sample_props :: animator_props where
  "sample_props = \<lparr>sheetUrl = ''http://localhost:5000/outputs/job1/idle_sheet.png'',
                   frameCount = 6, frameWidth = None, frameHeight = None, speed = 100\<rparr>"

definition zero_props :: animator_props where
  "zero_props = \<lparr>sheetUrl = ''http://localhost:5000/outputs/job1/idle_sheet.png'',
                 frameCount = 0, frameWidth = None, frameHeight = None, speed = 100\<rparr>"

text \<open>
  The component as the Generator page mounts it (both playing props passed), and after a
  384 x 64 sheet has been loaded.
\<close>

definition initial_animator :: animator where
  "initial_animator = \<lparr>requested = [], sheetDimensions = None, frames = [], imgError = False,
     hasExternalIsPlaying = True, hasOnPlayingChange = True, parentIsPlaying = True,
     internalIsPlaying = True, viewMode = preview,
     currentFrame = Fin 0, lastFrameTime = 0\<rparr>"

definition loaded_animator :: animator where
  "loaded_animator = loadSheet sample_props (\<lambda>u. Loaded 384 64) True initial_animator"

section \<open>Properties of getOutputUrl\<close>

lemma default_bases:
  "SPRITE_API_BASE None = ''http://localhost:5000''"
  "MODEL_3D_API_BASE None = ''http://localhost:8000''"
  by (simp_all add: SPRITE_API_BASE_def MODEL_3D_API_BASE_def str_or_def)

lemma startsWith_append: "startsWith b p \<Longrightarrow> startsWith (b @ r) p"
  unfolding startsWith_def
  by (metis append_eq_conv_conj append.assoc append_take_drop_id)

section \<open>Properties of the polling loop\<close>

lemma polls_append: "polls (tr @ tr') = polls tr + polls tr'"
  by (simp add: polls_def)

lemma polls_simps:
  "polls [] = 0"
  "polls (Progress m # tr) = polls tr"
  "polls (StartRequest p # tr) = polls tr"
  "polls (Wait n # tr) = polls tr"
  "polls (StatusRequest j # tr) = Suc (polls tr)"
  by (simp_all add: polls_def)

lemma schedule_append: "schedule (tr @ tr') = schedule tr @ schedule tr'"
  by (simp add: schedule_def)

lemma schedule_simps:
  "schedule [] = []"
  "schedule (Progress m # tr) = schedule tr"
  "schedule (StartRequest p # tr) = StartRequest p # schedule tr"
  "schedule (Wait n # tr) = Wait n # schedule tr"
  "schedule (StatusRequest j # tr) = StatusRequest j # schedule tr"
  by (simp_all add: schedule_def)

lemma polls_initial_trace: "polls (initial_trace prompt job) = 0"
  by (simp add: initial_trace_def polls_simps)

lemma schedule_initial_trace: "schedule (initial_trace prompt job) = [StartRequest prompt]"
  by (simp add: initial_trace_def schedule_simps)

text \<open>One iteration of the loop, by what the status request brings.\<close>

lemma poll_loop_timeout:
  "poll_loop base replies job maxAttempts tr = (tr, Inl (Error ''Pipeline timed out''))"
  by (subst poll_loop.simps) simp

lemma poll_loop_throws:
  assumes "i < maxAttempts" "get3DJobStatus (replies i) = Inl e"
  shows "poll_loop base replies job i tr = (tr @ [Wait 5000, StatusRequest job], Inl e)"
  using assms by (subst poll_loop.simps) simp

lemma poll_loop_failed:
  assumes "i < maxAttempts" "get3DJobStatus (replies i) = Inr st" "status st = ''failed''"
  shows "poll_loop base replies job i tr =
           (tr @ [Wait 5000, StatusRequest job],
            Inl (Error (str_or (error st) ''Pipeline failed'')))"
  using assms by (subst poll_loop.simps) simp

lemma poll_loop_completed:
  assumes "i < maxAttempts" "get3DJobStatus (replies i) = Inr st" "status st = ''completed''"
  shows "poll_loop base replies job i tr =
           (tr @ [Wait 5000, StatusRequest job, Progress ''Complete!''],
            Inr \<lparr>imageUrl = str_or (image_url st) [],
                 modelUrl = (if startsWith (str_or (model_url st) []) ''/''
                             then base @ str_or (model_url st) []
                             else str_or (model_url st) [])\<rparr>)"
  using assms by (subst poll_loop.simps) (simp add: Let_def)

lemma poll_loop_step:
  assumes "i < maxAttempts" and "non_terminal (replies i)"
  shows "\<exists>tr'. poll_loop base replies job i tr = poll_loop base replies job (Suc i) tr'
           \<and> polls tr' = Suc (polls tr)
           \<and> schedule tr' = schedule tr @ [Wait 5000, StatusRequest job]"
proof -
  from assms(2) obtain st where st: "get3DJobStatus (replies i) = Inr st"
      and nt: "status st \<noteq> ''completed''" "status st \<noteq> ''failed''"
    by (auto simp: non_terminal_def split: sum.splits)
  show ?thesis
    using assms(1) st nt
    by (subst poll_loop.simps)
       (auto simp add: Let_def polls_append polls_simps schedule_append schedule_simps)
qed

text \<open>A stretch of non-terminal replies takes the loop from attempt \<open>i\<close> to attempt \<open>k\<close>.\<close>

lemma poll_loop_run:
  assumes "\<forall>j. i \<le> j \<and> j < k \<longrightarrow> non_terminal (replies j)"
      and "i \<le> k" and "k \<le> maxAttempts"
  shows "\<exists>tr'. poll_loop base replies job i tr = poll_loop base replies job k tr'
           \<and> polls tr' = polls tr + (k - i)
           \<and> schedule tr' =
               schedule tr @ concat (replicate (k - i) [Wait 5000, StatusRequest job])"
  using assms
proof (induction "k - i" arbitrary: i tr)
  case 0
  then have "i = k" by simp
  then show ?case by auto
next
  case (Suc n)
  then have lt: "i < k" and lt': "i < maxAttempts" by simp_all
  with Suc.prems have "non_terminal (replies i)" by simp
  from poll_loop_step [where replies = replies and i = i and base = base and job = job
      and tr = tr, OF lt' this]
  obtain tr1 where
    eq: "poll_loop base replies job i tr = poll_loop base replies job (Suc i) tr1"
    and p: "polls tr1 = Suc (polls tr)"
    and w: "schedule tr1 = schedule tr @ [Wait 5000, StatusRequest job]"
    by blast
  have "n = k - Suc i" using Suc.hyps(2) by simp
  moreover have "\<forall>j. Suc i \<le> j \<and> j < k \<longrightarrow> non_terminal (replies j)"
    using Suc.prems(1) by simp
  moreover have "Suc i \<le> k" using lt by simp
  ultimately obtain tr' where
    eq': "poll_loop base replies job (Suc i) tr1 = poll_loop base replies job k tr'"
    and p': "polls tr' = polls tr1 + (k - Suc i)"
    and w': "schedule tr' =
               schedule tr1 @ concat (replicate (k - Suc i) [Wait 5000, StatusRequest job])"
    using Suc.hyps(1) [of "Suc i" tr1] Suc.prems(3) by blast
  have r: "k - i = Suc (k - Suc i)" using lt by simp
  show ?case
    apply (rule exI [of _ tr'])
    using lt by (simp add: eq eq' p p' w w' r)
qed

text \<open>The loop never issues more status requests than attempts are left.\<close>

lemma poll_loop_bound:
  "polls (fst (poll_loop base replies job i tr)) \<le> polls tr + (maxAttempts - i)"
proof (induction base replies job i tr rule: poll_loop.induct)
  case (1 base replies job i tr)
  show ?case
  proof (cases "i < maxAttempts")
    case False
    then show ?thesis by (subst poll_loop.simps) simp
  next
    case True
    show ?thesis
    proof (cases "get3DJobStatus (replies i)")
      case (Inl e)
      then show ?thesis using True
        by (subst poll_loop.simps) (simp add: polls_append polls_simps)
    next
      case (Inr st)
      note IH = "1.IH" [OF True refl Inr]
      show ?thesis
        using True Inr IH
        apply (subst poll_loop.simps)
        apply (simp add: Let_def polls_append polls_simps)
        apply (intro conjI impI)
        apply (simp_all add: polls_append polls_simps)
        done
    qed
  qed
qed

text \<open>Where an error of the loop can come from.\<close>

lemma poll_loop_error_cases:
  "snd (poll_loop base replies job i tr) = Inl e \<Longrightarrow>
     (\<exists>k. i \<le> k \<and> k < maxAttempts \<and> get3DJobStatus (replies k) = Inl e)
   \<or> (\<exists>k st. i \<le> k \<and> k < maxAttempts \<and> get3DJobStatus (replies k) = Inr st
          \<and> status st = ''failed'' \<and> e = Error (str_or (error st) ''Pipeline failed''))
   \<or> e = Error ''Pipeline timed out''"
proof (induction "maxAttempts - i" arbitrary: i tr)
  case 0
  then have "poll_loop base replies job i tr = (tr, Inl (Error ''Pipeline timed out''))"
    by (subst poll_loop.simps) simp
  with "0.prems" show ?case by simp
next
  case (Suc n)
  then have lt: "i < maxAttempts" by simp
  show ?case
  proof (cases "get3DJobStatus (replies i)")
    case (Inl e')
    from poll_loop_throws [where replies = replies and i = i, OF lt Inl] Suc.prems
    have "e' = e" by simp
    with Inl lt show ?thesis by auto
  next
    case (Inr st)
    consider (c) "status st = ''completed''" | (f) "status st = ''failed''"
      | (n) "status st \<noteq> ''completed''" "status st \<noteq> ''failed''" by blast
    then show ?thesis
    proof cases
      case c
      from poll_loop_completed [where replies = replies and i = i, OF lt Inr c] Suc.prems
      show ?thesis by simp
    next
      case f
      from poll_loop_failed [where replies = replies and i = i, OF lt Inr f] Suc.prems
      have "e = Error (str_or (error st) ''Pipeline failed'')" by simp
      with lt Inr f show ?thesis by auto
    next
      case n
      then have "non_terminal (replies i)" by (simp add: non_terminal_def Inr)
      from poll_loop_step [where replies = replies and i = i and base = base and job = job
          and tr = tr, OF lt this]
      obtain tr' where
        eq: "poll_loop base replies job i tr = poll_loop base replies job (Suc i) tr'"
        by blast
      have m: "n = maxAttempts - Suc i" using Suc.hyps(2) by simp
      have "snd (poll_loop base replies job (Suc i) tr') = Inl e" using Suc.prems eq by simp
      from Suc.hyps(1) [OF m this] show ?thesis
        apply (elim disjE exE conjE)
        subgoal for k by (intro disjI1 exI [of _ k]) simp
        subgoal for k st' by (intro disjI2 disjI1 exI [of _ k] exI [of _ st']) simp
        subgoal by simp
        done
    qed
  qed
qed

lemma generate3D_started:
  "start3DPipeline (start_reply backend) = Inr started \<Longrightarrow>
   generate3D base prompt backend =
     poll_loop base (status_reply backend) (job_id started) 0
       (initial_trace prompt (job_id started))"
  by (simp add: generate3D_def)

lemma generate3D_not_started:
  "start3DPipeline (start_reply backend) = Inl e \<Longrightarrow>
   generate3D base prompt backend =
     ([Progress ''Starting 3D generation pipeline...'', StartRequest prompt], Inl e)"
  by (simp add: generate3D_def)

text \<open>A start request that is refused ends the run, whatever the reply's body.\<close>

lemma generate3D_start_refused:
  assumes "start_reply backend = Responded r" and "\<not> ok r"
  shows "snd (generate3D base prompt backend) =
           Inl (Error (''Failed to start 3D pipeline: '' @ string_of_nat (http_status r)))"
  using assms by (simp add: generate3D_def start3DPipeline_def)

lemma generate3D_polls_le: "polls (fst (generate3D base prompt b)) \<le> 120"
proof (cases "start3DPipeline (start_reply b)")
  case (Inl e)
  then show ?thesis by (simp add: generate3D_not_started polls_simps)
next
  case (Inr s)
  show ?thesis
    using poll_loop_bound [of base "status_reply b" "job_id s" 0 "initial_trace prompt (job_id s)"]
    by (simp add: generate3D_started [OF Inr] polls_initial_trace maxAttempts_def)
qed

lemma generate3D_error_cases:
  assumes "snd (generate3D base prompt backend) = Inl e"
  shows "start3DPipeline (start_reply backend) = Inl e
   \<or> (\<exists>k<120. get3DJobStatus (status_reply backend k) = Inl e)
   \<or> (\<exists>k<120. \<exists>st. get3DJobStatus (status_reply backend k) = Inr st
          \<and> status st = ''failed'' \<and> e = Error (str_or (error st) ''Pipeline failed''))
   \<or> e = Error ''Pipeline timed out''"
proof (cases "start3DPipeline (start_reply backend)")
  case (Inl e')
  with assms show ?thesis by (simp add: generate3D_not_started)
next
  case (Inr started)
  from assms have "snd (poll_loop base (status_reply backend) (job_id started) 0
      (initial_trace prompt (job_id started))) = Inl e"
    by (simp add: generate3D_started [OF Inr])
  from poll_loop_error_cases [OF this] show ?thesis
    by (auto simp add: maxAttempts_def)
qed

text \<open>The sample backends start their job.\<close>

lemma sample_backends_start:
  "start3DPipeline (start_reply pending_backend) = Inr started_job"
  "start3DPipeline (start_reply done_backend) = Inr started_job"
  "start3DPipeline (start_reply flaky_backend) = Inr started_job"
  "start3DPipeline (start_reply failing_backend) = Inr started_job"
  by (simp_all add: pending_backend_def done_backend_def flaky_backend_def failing_backend_def
      start3DPipeline_def ok_def)

lemma flaky_result:
  "generate3D base prompt flaky_backend =
    (initial_trace prompt (job_id started_job)
       @ [Wait 5000, StatusRequest (job_id started_job)],
     Inl (Error ''Failed to fetch''))"
proof -
  have lt: "0 < maxAttempts" by (simp add: maxAttempts_def)
  have p: "get3DJobStatus (status_reply flaky_backend 0) = Inl (Error ''Failed to fetch'')"
    by (simp add: flaky_backend_def get3DJobStatus_def)
  show ?thesis
    by (simp only: generate3D_started [OF sample_backends_start(3)]
        poll_loop_throws [where replies = "status_reply flaky_backend" and i = 0, OF lt p])
qed

section \<open>Properties of handleGenerate\<close>

text \<open>Whatever the API call rejects with ends up in front of the user.\<close>

lemma handleGenerate_surfaces:
  "\<not> blank prompt \<Longrightarrow>
   generationStatus (handleGenerate prompt (Inl e) ui) = failed
   \<and> errorMessage (handleGenerate prompt (Inl e) ui) \<noteq> None"
  by (simp add: handleGenerate_def handleGenerate_catch_def Let_def)

lemma network_classified:
  "handleGenerate_catch (Error ''Failed to fetch'') ui =
     ui\<lparr>errorType := network,
        errorMessage := Some ''Network error. Please check your connection and ensure the backend server is running.'',
        progressMessage := [], isGenerating := False, generationStatus := failed\<rparr>"
proof -
  have a: "toLowerCase ''Failed to fetch'' = ''failed to fetch''" by code_simp
  have b: "\<not> includes_str ''failed to fetch'' ''moderation''" by code_simp
  have c: "\<not> includes_str ''failed to fetch'' ''content''" by code_simp
  have d: "includes_str ''failed to fetch'' ''fetch''" by code_simp
  show ?thesis
    unfolding handleGenerate_catch_def Let_def message.simps a
    using b c d by simp
qed

lemma start_failure_classified:
  "handleGenerate_catch (Error ''Failed to start 3D pipeline: 400'') ui =
     ui\<lparr>errorType := general, errorMessage := Some ''Failed to start 3D pipeline: 400'',
        progressMessage := [], isGenerating := False, generationStatus := failed\<rparr>"
proof -
  have a: "toLowerCase ''Failed to start 3D pipeline: 400'' = ''failed to start 3d pipeline: 400''"
    by code_simp
  have b: "\<not> includes_str ''failed to start 3d pipeline: 400'' ''moderation''"
    "\<not> includes_str ''failed to start 3d pipeline: 400'' ''content''"
    "\<not> includes_str ''failed to start 3d pipeline: 400'' ''network''"
    "\<not> includes_str ''failed to start 3d pipeline: 400'' ''fetch''"
    "\<not> includes_str ''failed to start 3d pipeline: 400'' ''timeout''"
    by code_simp+
  show ?thesis
    unfolding handleGenerate_catch_def Let_def message.simps a
    using b by simp
qed

lemma flagged_is_moderation:
  "includes_str (toLowerCase ''content moderation flagged'') ''moderation''"
  by code_simp

lemma sample_prompts_not_blank:
  "\<not> blank ''a robot''" "\<not> blank ''ninja warrior''"
  by code_simp+

section \<open>Properties of the sprite animator\<close>

text \<open>The extraction loop pushes one rectangle per index below the frame count.\<close>

lemma extract_loop_eq:
  "extract_loop n w h i acc =
     acc @ map (\<lambda>k. \<lparr>sx = js_times k w, sy = 0, sw = w, sh = h\<rparr>) [i..<nat n]"
proof (induction n w h i acc rule: extract_loop.induct)
  case (1 n w h i acc)
  show ?case
  proof (cases "int i < n")
    case True
    then have "i < nat n" by simp
    then have "[i..<nat n] = i # [Suc i..<nat n]" by (simp add: upt_conv_Cons)
    with True "1.IH" show ?thesis
      by (subst extract_loop.simps) simp
  next
    case False
    then have "nat n \<le> i" by simp
    with False show ?thesis by (subst extract_loop.simps) simp
  qed
qed

lemma loaded_animator_eq:
  "loaded_animator =
     initial_animator\<lparr>requested := [''http://localhost:5000/outputs/job1/idle_sheet.png''],
       sheetDimensions := Some (384, 64),
       frames := map (\<lambda>k. \<lparr>sx = Fin (int k * 64), sy = 0, sw = Fin 64, sh = Fin 64\<rparr>) [0..<6]\<rparr>"
  by (simp add: loaded_animator_def loadSheet_def onload_def sample_props_def
      initial_animator_def Let_def num_or_def js_floor_div_def extract_loop_eq)

lemma loaded_animator_fields:
  "isPlaying loaded_animator" "viewMode loaded_animator = preview"
  "currentFrame loaded_animator = Fin 0" "lastFrameTime loaded_animator = 0"
  "length (frames loaded_animator) = 6"
  "hasExternalIsPlaying loaded_animator = hasOnPlayingChange loaded_animator"
  by (simp_all add: loaded_animator_eq initial_animator_def isPlaying_def)

text \<open>
  The setter takes effect on the flag when the parent passes both props or neither.
\<close>

lemma isPlaying_setIsPlaying:
  "hasExternalIsPlaying s = hasOnPlayingChange s \<Longrightarrow> isPlaying (setIsPlaying v s) = v"
  by (simp add: isPlaying_def setIsPlaying_def)

lemma setIsPlaying_fields [simp]:
  "currentFrame (setIsPlaying v s) = currentFrame s"
  "lastFrameTime (setIsPlaying v s) = lastFrameTime s"
  "viewMode (setIsPlaying v s) = viewMode s"
  "frames (setIsPlaying v s) = frames s"
  by (simp_all add: setIsPlaying_def)

lemma isPlaying_updates [simp]:
  "isPlaying (s\<lparr>currentFrame := c\<rparr>) = isPlaying s"
  "isPlaying (s\<lparr>viewMode := m\<rparr>) = isPlaying s"
  "isPlaying (s\<lparr>lastFrameTime := t\<rparr>) = isPlaying s"
  by (simp_all add: isPlaying_def)

text \<open>On a non-negative dividend and a positive divisor, \<open>%\<close> is \<open>mod\<close>.\<close>

lemma js_rem_nonneg:
  "0 \<le> a \<Longrightarrow> 0 < n \<Longrightarrow> js_rem (Fin a) n = Fin (a mod n)"
  by (cases "a = 0") simp_all

text \<open>What each kind of step leaves alone.\<close>

lemma loadSheet_keeps:
  "hasExternalIsPlaying (loadSheet p decode ctx s) = hasExternalIsPlaying s"
  "hasOnPlayingChange (loadSheet p decode ctx s) = hasOnPlayingChange s"
  "currentFrame (loadSheet p decode ctx s) = currentFrame s"
  by (simp_all add: loadSheet_def onload_def Let_def split: image_load.splits)


lemma advance_keeps:
  "hasExternalIsPlaying (advance p ts s) = hasExternalIsPlaying s"
  "hasOnPlayingChange (advance p ts s) = hasOnPlayingChange s"
  "frames (advance p ts s) = frames s"
  by (simp_all add: advance_def animate_def)

lemma setIsPlaying_flags [simp]:
  "hasExternalIsPlaying (setIsPlaying v s) = hasExternalIsPlaying s"
  "hasOnPlayingChange (setIsPlaying v s) = hasOnPlayingChange s"
  by (simp_all add: setIsPlaying_def)

lemma ui_step_keeps:
  assumes "ui_step p e s = Some s'"
  shows "hasExternalIsPlaying s' = hasExternalIsPlaying s"
    and "hasOnPlayingChange s' = hasOnPlayingChange s"
    and "frames s' = frames s"
  using assms
  by (cases e; auto simp add: nextFrame_def prevFrame_def handleFrameClick_def scrub_def
      togglePlay_def split: if_splits)+

text \<open>
  In every state the component goes through, the parent passes both playing props or
  neither.
\<close>

lemma reachable_wired:
  "reachable p s \<Longrightarrow> hasExternalIsPlaying s = hasOnPlayingChange s"
proof (induction rule: reachable.induct)
  case (mount s p)
  then show ?case by (simp add: mounted_def)
next
  case (load p s decode ctx)
  then show ?case by (simp add: loadSheet_keeps)
next
  case (display_frame p s timestamp)
  then show ?case by (simp add: advance_keeps)
next
  case (user p s e s')
  then show ?case by (simp add: ui_step_keeps)
next
  case (speed_change p s v)
  then show ?case by simp
qed








text \<open>The sample component is in such a state, playing, and paused after the button.\<close>

lemma sample_states_reachable:
  "reachable sample_props loaded_animator"
  "reachable sample_props (togglePlay loaded_animator)"
proof -
  have "mounted initial_animator" by (simp add: mounted_def initial_animator_def)
  then have "reachable sample_props initial_animator" by (rule reachable.mount)
  then show l: "reachable sample_props loaded_animator"
    unfolding loaded_animator_def by (rule reachable.load)
  have "ui_step sample_props ClickPlayPause loaded_animator = Some (togglePlay loaded_animator)"
    by (simp add: loaded_animator_fields)
  with l show "reachable sample_props (togglePlay loaded_animator)" by (rule reachable.user)
qed


section \<open>The claims\<close>

text \<open>
  Claim C1. For a sheet that loads with pixel width \<open>W\<close> and height \<open>H\<close>, a frame count
  \<open>F > 0\<close> and no explicit frame width or height (and a 2D drawing context at hand, without
  which the effect extracts nothing), extraction stores exactly \<open>F\<close> frames; frame \<open>i\<close> is
  the rectangle that starts at column \<open>i * floor(W / F)\<close>, is \<open>floor(W / F)\<close> wide, starts at
  row 0 and is \<open>H\<close> high, so it covers the columns from \<open>i * floor(W / F)\<close> up to
  \<open>(i + 1) * floor(W / F)\<close>, which lie inside the sheet; the widths add up to at most \<open>W\<close>.
\<close>

theorem C1_extracted_frames_tile_sheet:
  assumes "0 < frameCount p" and "frameWidth p = None" and "frameHeight p = None"
      and "sheetUrl p \<noteq> []" and "decode (sheetUrl p) = Loaded W H"
  shows "length (frames (loadSheet p decode True st)) = nat (frameCount p)
       \<and> (\<forall>i < nat (frameCount p).
            frames (loadSheet p decode True st) ! i =
              \<lparr>sx = Fin (int (i * (W div nat (frameCount p)))), sy = 0,
               sw = Fin (int (W div nat (frameCount p))), sh = Fin (int H)\<rparr>
            \<and> (i + 1) * (W div nat (frameCount p)) \<le> W)
       \<and> nat (frameCount p) * (W div nat (frameCount p)) \<le> W"
proof -
  define F where "F = nat (frameCount p)"
  have Fpos: "0 < F" and Fint: "frameCount p = int F" using assms(1) by (simp_all add: F_def)
  have fw: "js_floor_div W (frameCount p) = Fin (int (W div F))"
    using Fpos by (simp add: js_floor_div_def Fint zdiv_int)
  have fr: "frames (loadSheet p decode True st) =
      map (\<lambda>k. \<lparr>sx = js_times k (Fin (int (W div F))), sy = 0, sw = Fin (int (W div F)),
                 sh = Fin (int H)\<rparr>) [0..<F]"
    using assms(2-5)
    by (simp add: loadSheet_def onload_def Let_def num_or_def fw extract_loop_eq F_def)
  have tot: "F * (W div F) \<le> W" by simp
  have each: "(i + 1) * (W div F) \<le> W" if "i < F" for i
  proof -
    from that have "(i + 1) * (W div F) \<le> F * (W div F)" by (intro mult_le_mono1) simp
    with tot show ?thesis by linarith
  qed
  show ?thesis
    unfolding F_def [symmetric] using each tot by (simp add: fr)
qed

text \<open>The 384 x 64 sheet with 6 frames: six frames, the last one at column 320, 64 x 64.\<close>

theorem C1_extracted_frames_tile_sheet_witness:
  "length (frames (loadSheet sample_props (\<lambda>u. Loaded 384 64) True initial_animator)) = 6
   \<and> frames (loadSheet sample_props (\<lambda>u. Loaded 384 64) True initial_animator) ! 5 =
       \<lparr>sx = Fin 320, sy = 0, sw = Fin 64, sh = Fin 64\<rparr>"
proof -
  have a: "0 < frameCount sample_props" "frameWidth sample_props = None"
    "frameHeight sample_props = None" "sheetUrl sample_props \<noteq> []"
    by (simp_all add: sample_props_def)
  have d: "(\<lambda>u. Loaded 384 64) (sheetUrl sample_props) = Loaded 384 64" by simp
  have "(5::nat) < nat (frameCount sample_props)" by (simp add: sample_props_def)
  with C1_extracted_frames_tile_sheet
         [of sample_props "\<lambda>u. Loaded 384 64" 384 64 initial_animator, OF a d]
  show ?thesis by (simp add: sample_props_def)
qed

text \<open>
  Claim C2. When the job has been started and the backend answers each of the 120 status
  requests with a status that is not terminal (\<open>pending\<close>, say), \<open>generate3D\<close> rejects with
  the time-out error after exactly 120 status requests, each one preceded by a wait of
  5000 ms; and no run of \<open>generate3D\<close>, whatever the backend does, issues more than 120
  status requests.
\<close>

theorem C2_nonterminal_backend_exhausts_polling:
  assumes "start3DPipeline (start_reply backend) = Inr started"
      and "\<forall>i<120. non_terminal (status_reply backend i)"
  shows "snd (generate3D base prompt backend) = Inl (Error ''Pipeline timed out'')
       \<and> polls (fst (generate3D base prompt backend)) = 120
       \<and> schedule (fst (generate3D base prompt backend)) =
           StartRequest prompt
             # concat (replicate 120 [Wait 5000, StatusRequest (job_id started)])
       \<and> (\<forall>b. polls (fst (generate3D base prompt b)) \<le> 120)"
proof -
  define tr0 where "tr0 = initial_trace prompt (job_id started)"
  have g: "generate3D base prompt backend =
             poll_loop base (status_reply backend) (job_id started) 0 tr0"
    using assms(1) by (simp add: generate3D_started tr0_def)
  have "\<forall>j. 0 \<le> j \<and> j < maxAttempts \<longrightarrow> non_terminal (status_reply backend j)"
    using assms(2) by (simp add: maxAttempts_def)
  from poll_loop_run [where i = 0 and k = maxAttempts and replies = "status_reply backend"
      and base = base and job = "job_id started" and tr = tr0, OF this]
  obtain tr' where
    eq: "poll_loop base (status_reply backend) (job_id started) 0 tr0 =
           poll_loop base (status_reply backend) (job_id started) maxAttempts tr'"
    and p: "polls tr' = polls tr0 + (maxAttempts - 0)"
    and w: "schedule tr' = schedule tr0 @
              concat (replicate (maxAttempts - 0) [Wait 5000, StatusRequest (job_id started)])"
    by auto
  have res: "generate3D base prompt backend = (tr', Inl (Error ''Pipeline timed out''))"
    by (simp only: g eq poll_loop_timeout)
  have p': "polls tr' = 120"
    using p by (simp add: tr0_def polls_initial_trace maxAttempts_def)
  have w': "schedule tr' =
      StartRequest prompt # concat (replicate 120 [Wait 5000, StatusRequest (job_id started)])"
    using w by (simp add: tr0_def schedule_initial_trace maxAttempts_def)
  show ?thesis
    using generate3D_polls_le by (simp add: res p' w')
qed

theorem C2_nonterminal_backend_exhausts_polling_witness:
  "snd (generate3D (MODEL_3D_API_BASE None) ''a robot'' pending_backend) =
     Inl (Error ''Pipeline timed out'')
   \<and> polls (fst (generate3D (MODEL_3D_API_BASE None) ''a robot'' pending_backend)) = 120"
proof -
  have nt: "\<forall>i<120. non_terminal (status_reply pending_backend i)"
    by (simp add: pending_backend_def pending_status_def non_terminal_def get3DJobStatus_def
        ok_def)
  from C2_nonterminal_backend_exhausts_polling [OF sample_backends_start(1) nt,
      of "MODEL_3D_API_BASE None" "''a robot''"]
  show ?thesis by blast
qed

text \<open>
  Claim C3. When the job has been started and the first status request brings the status
  \<open>completed\<close>, \<open>generate3D\<close> resolves on that request, the only one it makes, after one wait:
  the image URL is the one returned (empty when there is none); the model URL is the one
  returned, with the 3D backend base URL put in front of it when it starts with a slash
  (and empty when there is none).
\<close>

theorem C3_completed_on_first_poll:
  assumes "start3DPipeline (start_reply backend) = Inr started"
      and "get3DJobStatus (status_reply backend 0) = Inr st"
      and "status st = ''completed''"
  shows "snd (generate3D base prompt backend) =
           Inr \<lparr>imageUrl = (case image_url st of None \<Rightarrow> [] | Some u \<Rightarrow> u),
                modelUrl = (case model_url st of None \<Rightarrow> []
                            | Some m \<Rightarrow> if startsWith m ''/'' then base @ m else m)\<rparr>
       \<and> polls (fst (generate3D base prompt backend)) = 1
       \<and> schedule (fst (generate3D base prompt backend)) =
           [StartRequest prompt, Wait 5000, StatusRequest (job_id started)]"
proof -
  have lt: "0 < maxAttempts" by (simp add: maxAttempts_def)
  have g: "generate3D base prompt backend =
      (initial_trace prompt (job_id started)
         @ [Wait 5000, StatusRequest (job_id started), Progress ''Complete!''],
       Inr \<lparr>imageUrl = str_or (image_url st) [],
            modelUrl = (if startsWith (str_or (model_url st) []) ''/''
                        then base @ str_or (model_url st) [] else str_or (model_url st) [])\<rparr>)"
    by (simp only: generate3D_started [OF assms(1)]
        poll_loop_completed [where replies = "status_reply backend" and i = 0, OF lt assms(2,3)])
  have img: "str_or (image_url st) [] = (case image_url st of None \<Rightarrow> [] | Some u \<Rightarrow> u)"
    by (simp add: str_or_def split: option.splits)
  have mdl: "(if startsWith (str_or (model_url st) []) ''/''
                then base @ str_or (model_url st) [] else str_or (model_url st) []) =
             (case model_url st of None \<Rightarrow> []
              | Some m \<Rightarrow> if startsWith m ''/'' then base @ m else m)"
    by (simp add: str_or_def startsWith_def split: option.splits)
  show ?thesis
    unfolding g img mdl
    by (simp add: polls_append polls_simps polls_initial_trace schedule_append
        schedule_simps schedule_initial_trace)
qed

theorem C3_completed_on_first_poll_witness:
  "snd (generate3D (MODEL_3D_API_BASE None) ''a robot'' done_backend) =
     Inr \<lparr>imageUrl = ''https://cdn.example/robot.png'',
          modelUrl = ''http://localhost:8000/models/robot.glb''\<rparr>
   \<and> polls (fst (generate3D (MODEL_3D_API_BASE None) ''a robot'' done_backend)) = 1"
proof -
  have p: "get3DJobStatus (status_reply done_backend 0) = Inr completed_status"
    by (simp add: done_backend_def get3DJobStatus_def ok_def)
  have c: "status completed_status = ''completed''"
    by (simp add: completed_status_def)
  from C3_completed_on_first_poll [OF sample_backends_start(2) p c,
      of "MODEL_3D_API_BASE None" "''a robot''"]
  show ?thesis by (simp add: completed_status_def startsWith_def default_bases)
qed

text \<open>
  Claim C4 does not hold of the code: the loop does not catch what \<open>get3DJobStatus\<close> throws.
  With a backend whose first status fetch fails in transport (and whose job would be
  complete at the second), \<open>generate3D\<close> rejects with that failure after one status request,
  and \<open>handleGenerate\<close> ends in the \<open>failed\<close> state showing the network error message:
  an error reaches the user that is neither exhaustion of the 120 attempts nor a \<open>failed\<close>
  status.
\<close>

theorem C4_poll_failure_reaches_user_counterexample:
  "snd (generate3D (MODEL_3D_API_BASE None) ''a robot'' flaky_backend) =
     Inl (Error ''Failed to fetch'')
   \<and> polls (fst (generate3D (MODEL_3D_API_BASE None) ''a robot'' flaky_backend)) = 1
   \<and> generationStatus (handleGenerate ''a robot''
         (snd (generate3D (MODEL_3D_API_BASE None) ''a robot'' flaky_backend)) fresh_ui) = failed
   \<and> errorMessage (handleGenerate ''a robot''
         (snd (generate3D (MODEL_3D_API_BASE None) ''a robot'' flaky_backend)) fresh_ui) =
       Some ''Network error. Please check your connection and ensure the backend server is running.''"
  unfolding flaky_result
  using sample_prompts_not_blank(1)
  by (simp add: handleGenerate_def network_classified polls_append polls_simps
      polls_initial_trace Let_def)

text \<open>
  Claim C4, amended. A status fetch that throws inside the polling loop is not retried: when
  the job has been started, the first \<open>k\<close> status requests (\<open>k < 120\<close>) bring non-terminal
  statuses and the next one throws \<open>e\<close>, \<open>generate3D\<close> rejects with \<open>e\<close> after exactly
  \<open>k + 1\<close> status requests, and \<open>handleGenerate\<close> (given a prompt that is not blank) ends in
  the \<open>failed\<close> state with an error message on display. And an error of \<open>generate3D\<close> is
  always one of: the start request's failure, a status fetch's failure, the error of a
  \<open>failed\<close> status, or the time-out after 120 attempts.
\<close>

theorem C4_poll_failure_aborts_polling:
  "(start3DPipeline (start_reply backend) = Inr started
      \<and> k < 120 \<and> (\<forall>i<k. non_terminal (status_reply backend i))
      \<and> get3DJobStatus (status_reply backend k) = Inl e \<and> \<not> blank prompt
    \<longrightarrow> snd (generate3D base prompt backend) = Inl e
      \<and> polls (fst (generate3D base prompt backend)) = k + 1
      \<and> generationStatus
           (handleGenerate prompt (snd (generate3D base prompt backend)) ui) = failed
      \<and> errorMessage
           (handleGenerate prompt (snd (generate3D base prompt backend)) ui) \<noteq> None)
   \<and> (snd (generate3D base prompt backend) = Inl e
    \<longrightarrow> start3DPipeline (start_reply backend) = Inl e
      \<or> (\<exists>j<120. get3DJobStatus (status_reply backend j) = Inl e)
      \<or> (\<exists>j<120. \<exists>st. get3DJobStatus (status_reply backend j) = Inr st
             \<and> status st = ''failed'' \<and> e = Error (str_or (error st) ''Pipeline failed''))
      \<or> e = Error ''Pipeline timed out'')"
proof (intro conjI impI)
  assume a: "start3DPipeline (start_reply backend) = Inr started
      \<and> k < 120 \<and> (\<forall>i<k. non_terminal (status_reply backend i))
      \<and> get3DJobStatus (status_reply backend k) = Inl e \<and> \<not> blank prompt"
  define tr0 where "tr0 = initial_trace prompt (job_id started)"
  have k: "k < maxAttempts" using a by (simp add: maxAttempts_def)
  have thrown: "get3DJobStatus (status_reply backend k) = Inl e" using a by simp
  have "\<forall>j. 0 \<le> j \<and> j < k \<longrightarrow> non_terminal (status_reply backend j)"
    using a by simp
  from poll_loop_run [where i = 0 and k = k and replies = "status_reply backend"
      and base = base and job = "job_id started" and tr = tr0, OF this] k
  obtain tr' where
    eq: "poll_loop base (status_reply backend) (job_id started) 0 tr0 =
           poll_loop base (status_reply backend) (job_id started) k tr'"
    and p: "polls tr' = polls tr0 + (k - 0)"
    by auto
  have started: "start3DPipeline (start_reply backend) = Inr started" using a by simp
  have res: "generate3D base prompt backend =
      (tr' @ [Wait 5000, StatusRequest (job_id started)], Inl e)"
    using generate3D_started [OF started, of base prompt] eq
      poll_loop_throws [where replies = "status_reply backend" and i = k, OF k thrown]
    by (simp add: tr0_def)
  have p': "polls tr' = k" using p by (simp add: tr0_def polls_initial_trace)
  have nb: "\<not> blank prompt" using a by simp
  show "snd (generate3D base prompt backend) = Inl e" by (simp add: res)
  show "polls (fst (generate3D base prompt backend)) = k + 1"
    by (simp add: res p' polls_append polls_simps)
  have out: "snd (generate3D base prompt backend) = Inl e" by (simp add: res)
  show "generationStatus
          (handleGenerate prompt (snd (generate3D base prompt backend)) ui) = failed"
    unfolding out using handleGenerate_surfaces [OF nb, of e ui] by blast
  show "errorMessage
          (handleGenerate prompt (snd (generate3D base prompt backend)) ui) \<noteq> None"
    unfolding out using handleGenerate_surfaces [OF nb, of e ui] by blast
next
  assume "snd (generate3D base prompt backend) = Inl e"
  then show "start3DPipeline (start_reply backend) = Inl e
      \<or> (\<exists>j<120. get3DJobStatus (status_reply backend j) = Inl e)
      \<or> (\<exists>j<120. \<exists>st. get3DJobStatus (status_reply backend j) = Inr st
             \<and> status st = ''failed'' \<and> e = Error (str_or (error st) ''Pipeline failed''))
      \<or> e = Error ''Pipeline timed out''"
    by (rule generate3D_error_cases)
qed

text \<open>Two \<open>pending\<close> replies, then a 503: rejected after the third status request.\<close>

theorem C4_poll_failure_aborts_polling_witness:
  "snd (generate3D (MODEL_3D_API_BASE None) ''a robot'' failing_backend) =
     Inl (Error ''Failed to get job status: 503'')
   \<and> polls (fst (generate3D (MODEL_3D_API_BASE None) ''a robot'' failing_backend)) = 3
   \<and> generationStatus (handleGenerate ''a robot''
        (snd (generate3D (MODEL_3D_API_BASE None) ''a robot'' failing_backend)) fresh_ui) = failed"
proof -
  have n: "string_of_nat 503 = ''503''" by code_simp
  have nt: "\<forall>i<2. non_terminal (status_reply failing_backend i)"
    by (simp add: failing_backend_def pending_status_def non_terminal_def get3DJobStatus_def
        ok_def)
  have th: "get3DJobStatus (status_reply failing_backend 2) =
      Inl (Error ''Failed to get job status: 503'')"
    by (simp add: failing_backend_def get3DJobStatus_def ok_def n)
  have k: "(2::nat) < 120" by simp
  from C4_poll_failure_aborts_polling [of failing_backend started_job 2
      "Error ''Failed to get job status: 503''" "''a robot''" "MODEL_3D_API_BASE None" fresh_ui]
    sample_backends_start(4) k nt th sample_prompts_not_blank(1)
  have r: "snd (generate3D (MODEL_3D_API_BASE None) ''a robot'' failing_backend) =
          Inl (Error ''Failed to get job status: 503'')
      \<and> polls (fst (generate3D (MODEL_3D_API_BASE None) ''a robot'' failing_backend)) = 2 + 1
      \<and> generationStatus (handleGenerate ''a robot''
           (snd (generate3D (MODEL_3D_API_BASE None) ''a robot'' failing_backend)) fresh_ui)
          = failed"
    by blast
  have three: "(2::nat) + 1 = 3" by simp
  show ?thesis using r unfolding three .
qed

text \<open>
  Claim C5 does not hold of the code: the effect looks at the sheet URL only, never at the
  frame count. With frame count 0 and a sheet URL, the image is requested, it loads, and
  its size is recorded.
\<close>

theorem C5_zero_frame_count_still_fetches_counterexample:
  "frameCount zero_props \<le> 0
   \<and> requested (loadSheet zero_props (\<lambda>u. Loaded 384 64) True initial_animator) =
       [''http://localhost:5000/outputs/job1/idle_sheet.png'']
   \<and> imgError (loadSheet zero_props (\<lambda>u. Loaded 384 64) True initial_animator) = False
   \<and> sheetDimensions (loadSheet zero_props (\<lambda>u. Loaded 384 64) True initial_animator) =
       Some (384, 64)"
  by (simp add: zero_props_def loadSheet_def onload_def initial_animator_def Let_def)

text \<open>
  Claim C5, amended. For a frame count \<open>\<le> 0\<close>, nothing is rejected on account of the frame
  count: with an empty sheet URL the effect does nothing at all (no request, state
  unchanged); with any other sheet URL the image is requested, and when it loads (and a 2D
  context is at hand) the extraction loop runs zero times and the frame list becomes empty.
\<close>

theorem C5_frame_count_is_not_checked:
  assumes "frameCount p \<le> 0"
  shows "(sheetUrl p = [] \<longrightarrow> loadSheet p decode ctx st = st)
       \<and> (sheetUrl p \<noteq> [] \<longrightarrow>
            requested (loadSheet p decode ctx st) = requested st @ [sheetUrl p]
            \<and> (\<forall>W H. decode (sheetUrl p) = Loaded W H \<and> ctx \<longrightarrow>
                  frames (loadSheet p decode ctx st) = []))"
proof -
  have "nat (frameCount p) = 0" using assms by simp
  then have e: "extract_loop (frameCount p) w h 0 [] = []" for w h
    by (simp add: extract_loop_eq)
  show ?thesis
    by (auto simp add: loadSheet_def onload_def Let_def e split: image_load.splits)
qed

theorem C5_frame_count_is_not_checked_witness:
  "requested (loadSheet zero_props (\<lambda>u. Loaded 384 64) True initial_animator) =
       requested initial_animator @ [sheetUrl zero_props]
   \<and> frames (loadSheet zero_props (\<lambda>u. Loaded 384 64) True initial_animator) = []"
proof -
  have a: "frameCount zero_props \<le> 0" and b: "sheetUrl zero_props \<noteq> []"
    by (simp_all add: zero_props_def)
  from C5_frame_count_is_not_checked [OF a, of "\<lambda>u. Loaded 384 64" True initial_animator] b
  show ?thesis by simp
qed



text \<open>
  Claim C7. One display frame at time \<open>ts\<close> changes the state only when the animation is
  playing and \<open>ts\<close> is at least \<open>speed\<close> later than the recorded time of the last advance;
  otherwise the state stays as it is. When the loop is running (playing, in the animation
  view, frames extracted) and that much time has passed, the frame index becomes
  \<open>(c + 1) mod F\<close> and the recorded time becomes \<open>ts\<close> itself, the time of this advance, so
  the next interval is counted from the advance that happened and not from a schedule.
\<close>

theorem C7_advance_by_elapsed_time:
  "(advance p ts s \<noteq> s \<longrightarrow> isPlaying s \<and> speed p \<le> ts - lastFrameTime s)
   \<and> (loop_running s \<and> speed p \<le> ts - lastFrameTime s \<longrightarrow>
        advance p ts s =
          s\<lparr>currentFrame := js_rem (js_plus (currentFrame s) 1) (frameCount p),
            lastFrameTime := ts\<rparr>
        \<and> lastFrameTime (advance p ts s) = ts
        \<and> (\<forall>c. currentFrame s = Fin c \<and> 0 \<le> c \<and> 0 < frameCount p \<longrightarrow>
               currentFrame (advance p ts s) = Fin ((c + 1) mod frameCount p)))"
  by (auto simp add: advance_def animate_def loop_running_def js_rem_nonneg)

text \<open>
  At 100 ms per frame, with the last advance at 0: a display frame at 250 ms advances to
  index 1 and records 250; the one at 300 ms, only 50 ms later, changes nothing.
\<close>

theorem C7_advance_by_elapsed_time_witness:
  "currentFrame (advance sample_props 250 loaded_animator) = Fin 1
   \<and> lastFrameTime (advance sample_props 250 loaded_animator) = 250
   \<and> advance sample_props 300 (advance sample_props 250 loaded_animator) =
       advance sample_props 250 loaded_animator"
proof -
  have run: "loop_running loaded_animator"
    by (simp add: loop_running_def loaded_animator_fields)
  have el: "speed sample_props \<le> 250 - lastFrameTime loaded_animator"
    by (simp add: sample_props_def loaded_animator_fields)
  have F: "0 < frameCount sample_props" "(1::int) mod frameCount sample_props = 1"
    by (simp_all add: sample_props_def)
  from C7_advance_by_elapsed_time [of sample_props 250 loaded_animator] run el F(1)
  have first: "currentFrame (advance sample_props 250 loaded_animator) = Fin 1"
    "lastFrameTime (advance sample_props 250 loaded_animator) = 250"
    using loaded_animator_fields(3) F(2) by auto
  have "\<not> speed sample_props \<le> 300 - lastFrameTime (advance sample_props 250 loaded_animator)"
    unfolding first(2) by (simp add: sample_props_def)
  with C7_advance_by_elapsed_time
         [of sample_props 300 "advance sample_props 250 loaded_animator"]
  have "advance sample_props 300 (advance sample_props 250 loaded_animator) =
          advance sample_props 250 loaded_animator"
    by blast
  with first show ?thesis by simp
qed

text \<open>
  Claim C8. In any state the component goes through, the play/pause handler flips the
  playing flag and leaves the current frame index alone, and applied twice in a row, with
  no display frame in between, it gives back the state one started from, frame index
  included. The button that calls it is on screen in the animation view, before and after
  the press.
\<close>

theorem C8_toggle_keeps_frame:
  assumes "reachable p s"
  shows "isPlaying (togglePlay s) = (\<not> isPlaying s)
       \<and> currentFrame (togglePlay s) = currentFrame s
       \<and> currentFrame (togglePlay (togglePlay s)) = currentFrame s
       \<and> togglePlay (togglePlay s) = s
       \<and> (viewMode s = preview \<longrightarrow>
            ui_step p ClickPlayPause s = Some (togglePlay s)
            \<and> ui_step p ClickPlayPause (togglePlay s) = Some s)"
proof -
  have wired: "hasExternalIsPlaying s = hasOnPlayingChange s"
    using assms by (rule reachable_wired)
  have twice: "togglePlay (togglePlay s) = s"
    using wired by (simp add: togglePlay_def setIsPlaying_def isPlaying_def)
  have flip: "isPlaying (togglePlay s) = (\<not> isPlaying s)"
    using wired by (simp add: togglePlay_def isPlaying_setIsPlaying)
  have same: "currentFrame (togglePlay s) = currentFrame s"
    by (simp add: togglePlay_def)
  have view: "viewMode (togglePlay s) = viewMode s"
    by (simp add: togglePlay_def)
  show ?thesis
    using twice flip same view by simp
qed

theorem C8_toggle_keeps_frame_witness:
  "isPlaying loaded_animator = True
   \<and> isPlaying (togglePlay loaded_animator) = False
   \<and> currentFrame (togglePlay loaded_animator) = Fin 0
   \<and> togglePlay (togglePlay loaded_animator) = loaded_animator"
  using C8_toggle_keeps_frame [OF sample_states_reachable(1)]
  by (simp add: loaded_animator_fields)

text \<open>
  Claim C9 does not hold of every generation attempt. In 3D mode the attempt begins with
  \<open>start3DPipeline\<close>, which does not read the body of a reply that is not ok: given the
  very reply of the claim, status 400 with body \<open>{"error": "content moderation flagged"}\<close>,
  it throws \<open>Failed to start 3D pipeline: 400\<close>, \<open>generate3D\<close> hands that error on, and
  \<open>handleGenerate\<close> classifies it as \<open>general\<close> and shows that message. The backend's
  text is lost and the failure is not classified as moderation.
\<close>

theorem C9_3d_start_reply_counterexample:
  "\<not> ok flagged_response
   \<and> json_body flagged_response = Inr (ErrorBody (Some ''content moderation flagged''))
   \<and> start3DPipeline (Responded flagged_response) =
       Inl (Error ''Failed to start 3D pipeline: 400'')
   \<and> errorType (handleGenerate ''a robot''
        (start3DPipeline (Responded flagged_response)) fresh_ui) = general
   \<and> errorMessage (handleGenerate ''a robot''
        (start3DPipeline (Responded flagged_response)) fresh_ui) =
       Some ''Failed to start 3D pipeline: 400''"
proof -
  have n: "string_of_nat 400 = ''400''" by code_simp
  have s: "start3DPipeline (Responded flagged_response) =
      Inl (Error ''Failed to start 3D pipeline: 400'')"
    by (simp add: start3DPipeline_def flagged_response_def ok_def n)
  have c: "handleGenerate_catch (Error ''Failed to start 3D pipeline: 400'') ui =
      ui\<lparr>errorType := general, errorMessage := Some ''Failed to start 3D pipeline: 400'',
         progressMessage := [], isGenerating := False, generationStatus := failed\<rparr>" for ui
    by (rule start_failure_classified)
  show ?thesis
    unfolding s using sample_prompts_not_blank(1)
    by (simp add: handleGenerate_def c flagged_response_def ok_def)
qed

text \<open>
  Claim C9, amended. For every sprite generation attempt (\<open>generateSprite\<close>, the 2D mode):
  when the sprite backend answers with a status outside 200..299 and the JSON body
  \<open>{"error": "content moderation flagged"}\<close>, \<open>generateSprite\<close> rejects with an error whose
  message is that text, and \<open>handleGenerate\<close> (given a prompt that is not blank) classifies
  the failure as \<open>moderation\<close>, the message containing \<open>moderation\<close>, and ends in the
  \<open>failed\<close> state.
\<close>

theorem C9_moderation_reply_classified:
  assumes "\<not> ok response"
      and "json_body response = Inr (ErrorBody (Some ''content moderation flagged''))"
      and "\<not> blank prompt"
  shows "generateSprite (Responded response) = Inl (Error ''content moderation flagged'')
       \<and> errorType (handleGenerate prompt (generateSprite (Responded response)) ui) = moderation
       \<and> generationStatus (handleGenerate prompt (generateSprite (Responded response)) ui)
           = failed"
proof -
  have g: "generateSprite (Responded response) = Inl (Error ''content moderation flagged'')"
    using assms(1,2) by (simp add: generateSprite_def str_or_def)
  show ?thesis
    unfolding g using assms(3) flagged_is_moderation
    by (simp add: handleGenerate_def handleGenerate_catch_def Let_def)
qed

theorem C9_moderation_reply_classified_witness:
  "generateSprite (Responded flagged_response) = Inl (Error ''content moderation flagged'')
   \<and> errorType (handleGenerate ''ninja warrior''
        (generateSprite (Responded flagged_response)) fresh_ui) = moderation"
proof -
  have nok: "\<not> ok flagged_response"
    by (simp add: flagged_response_def ok_def)
  have body: "json_body flagged_response = Inr (ErrorBody (Some ''content moderation flagged''))"
    by (simp add: flagged_response_def)
  from C9_moderation_reply_classified [OF nok body sample_prompts_not_blank(2), of fresh_ui]
  show ?thesis by blast
qed

text \<open>
  Claim C10 does not hold of the code in its last part: a path that starts with two slashes
  does not start with \<open>http\<close>, and it is appended to the base as it is, so that two slashes
  follow the base. The result is neither base, slash, path, nor base, one slash and the
  rest of the path.
\<close>

theorem C10_double_slash_path_counterexample:
  "\<not> startsWith ''//a.png'' ''http''
   \<and> getOutputUrl (SPRITE_API_BASE None) ''//a.png'' = ''http://localhost:5000//a.png''
   \<and> getOutputUrl (SPRITE_API_BASE None) ''//a.png''
       \<noteq> SPRITE_API_BASE None @ ''/'' @ ''//a.png''
   \<and> \<not> spec_one_slash_join (SPRITE_API_BASE None) ''//a.png''
         (getOutputUrl (SPRITE_API_BASE None) ''//a.png'')"
  by (simp add: default_bases getOutputUrl_def startsWith_def spec_one_slash_join_def
      strip_slash_def)

text \<open>
  Claim C10, amended. Provided the base URL starts with \<open>http\<close>, \<open>getOutputUrl\<close> is
  idempotent. A path that starts with \<open>http\<close> is returned unchanged. Any other path that
  does not start with two slashes is returned as the base URL followed by exactly one slash
  and the path (less its own leading slash, when it has one). In general a path that starts
  with a slash is appended to the base as it is, and any other path after one slash.
\<close>

theorem C10_getOutputUrl_idempotent:
  assumes "startsWith base ''http''"
  shows "getOutputUrl base (getOutputUrl base path) = getOutputUrl base path
   \<and> (startsWith path ''http'' \<longrightarrow> getOutputUrl base path = path)
   \<and> (\<not> startsWith path ''http'' \<and> \<not> startsWith path ''//'' \<longrightarrow>
        spec_one_slash_join base path (getOutputUrl base path))
   \<and> (\<not> startsWith path ''http'' \<and> startsWith path ''/'' \<longrightarrow>
        getOutputUrl base path = base @ path)
   \<and> (\<not> startsWith path ''http'' \<and> \<not> startsWith path ''/'' \<longrightarrow>
        getOutputUrl base path = base @ ''/'' @ path)"
proof (intro conjI impI)
  show "getOutputUrl base (getOutputUrl base path) = getOutputUrl base path"
    using assms by (simp add: getOutputUrl_def startsWith_append)
next
  assume "startsWith path ''http''"
  then show "getOutputUrl base path = path" by (simp add: getOutputUrl_def)
next
  assume a: "\<not> startsWith path ''http'' \<and> \<not> startsWith path ''//''"
  show "spec_one_slash_join base path (getOutputUrl base path)"
  proof (cases path)
    case Nil
    then show ?thesis
      by (simp add: getOutputUrl_def spec_one_slash_join_def strip_slash_def startsWith_def)
  next
    case (Cons c cs)
    with a show ?thesis
      by (cases cs)
         (auto simp add: getOutputUrl_def spec_one_slash_join_def strip_slash_def startsWith_def)
  qed
next
  assume "\<not> startsWith path ''http'' \<and> startsWith path ''/''"
  then show "getOutputUrl base path = base @ path" by (simp add: getOutputUrl_def)
next
  assume "\<not> startsWith path ''http'' \<and> \<not> startsWith path ''/''"
  then show "getOutputUrl base path = base @ ''/'' @ path" by (simp add: getOutputUrl_def)
qed

theorem C10_getOutputUrl_idempotent_witness:
  "getOutputUrl (SPRITE_API_BASE None)
       (getOutputUrl (SPRITE_API_BASE None) ''/outputs/job1/idle_sheet.png'')
     = getOutputUrl (SPRITE_API_BASE None) ''/outputs/job1/idle_sheet.png''
   \<and> spec_one_slash_join (SPRITE_API_BASE None) ''/outputs/job1/idle_sheet.png''
       (getOutputUrl (SPRITE_API_BASE None) ''/outputs/job1/idle_sheet.png'')
   \<and> getOutputUrl (SPRITE_API_BASE None) ''https://cdn.example/a.gif'' =
       ''https://cdn.example/a.gif''"
proof -
  have b: "startsWith (SPRITE_API_BASE None) ''http''"
    by (simp add: default_bases startsWith_def)
  have p1: "\<not> startsWith ''/outputs/job1/idle_sheet.png'' ''http''
            \<and> \<not> startsWith ''/outputs/job1/idle_sheet.png'' ''//''"
    by (simp add: startsWith_def)
  have p2: "startsWith ''https://cdn.example/a.gif'' ''http''"
    by (simp add: startsWith_def)
  show ?thesis
    using C10_getOutputUrl_idempotent [OF b, of "''/outputs/job1/idle_sheet.png''"] p1
          C10_getOutputUrl_idempotent [OF b, of "''https://cdn.example/a.gif''"] p2
    by blast
qed

end
